theory Spec2Isabelle
  imports Complex_Main "HOL-Library.List_Lexorder" "HOL-Library.Product_Lexorder"
    "HOL-Library.Multiset"
begin

section \<open>Python values, exceptions and rendering\<close>

text \<open>
  The rows that psycopg2 hands to \<^verbatim>\<open>routes.py\<close> are tuples of Python values. A tuple is a
  list of \<open>pyval\<close>: \<open>PNone\<close> is SQL NULL, \<open>PInt\<close> an integer column, \<open>PStr\<close> a text
  column and \<open>PDate y m d\<close> a \<^verbatim>\<open>datetime.date\<close>. Numeric columns are integer columns here;
  Python's unbounded \<^verbatim>\<open>int\<close> is \<open>int\<close>.
\<close>

datatype pyval = PNone | PInt int | PStr string | PDate nat nat nat

type_synonym row = "pyval list"

text \<open>The exceptions the modelled code can raise, as values.\<close>

datatype py_error =
  IndexError | TypeError | ZeroDivisionError | ValueError | BadRequestKeyError | Psycopg2Error

text \<open>Sequencing of fallible steps: the first exception raised ends the computation.\<close>

definition and_then :: "'e + 'a \<Rightarrow> ('a \<Rightarrow> 'e + 'b) \<Rightarrow> 'e + 'b" where
  "and_then m f = (case m of Inl e \<Rightarrow> Inl e | Inr x \<Rightarrow> f x)"

text \<open>\<^verbatim>\<open>t[i]\<close> on a tuple, for a non-negative constant index.\<close>

definition getitem :: "row \<Rightarrow> nat \<Rightarrow> py_error + pyval" where
  "getitem t i = (if i < length t then Inr (t ! i) else Inl IndexError)"

text \<open>
  \<^verbatim>\<open>acc += v\<close> where \<open>acc\<close> is an \<^verbatim>\<open>int\<close>: adding \<^verbatim>\<open>None\<close>, a \<^verbatim>\<open>str\<close> or a
  \<^verbatim>\<open>date\<close> to an \<^verbatim>\<open>int\<close> raises \<^verbatim>\<open>TypeError\<close>.
\<close>

fun iadd :: "int \<Rightarrow> pyval \<Rightarrow> py_error + int" where
  "iadd acc (PInt n) = Inr (acc + n)"
| "iadd acc v = Inl TypeError"

text \<open>
  \<^verbatim>\<open>a / n\<close> on two \<^verbatim>\<open>int\<close>s. Python returns the double nearest to the quotient;
  the model keeps the exact quotient as a rational and does not model the rounding to a
  double.
\<close>

definition truediv :: "int \<Rightarrow> nat \<Rightarrow> py_error + rat" where
  "truediv a n = (if n = 0 then Inl ZeroDivisionError else Inr (of_int a / of_nat n))"

text \<open>\<^verbatim>\<open>avg >= goal\<close> where \<open>avg\<close> is a \<^verbatim>\<open>float\<close>: only a number on the right compares.\<close>

fun float_ge :: "rat \<Rightarrow> pyval \<Rightarrow> py_error + bool" where
  "float_ge a (PInt g) = Inr (of_int g \<le> a)"
| "float_ge a v = Inl TypeError"

text \<open>
  \<^verbatim>\<open>a >= b\<close> on two row values: two ints, two strings (by code point) or two dates compare;
  \<^verbatim>\<open>None\<close> and mixed types raise \<^verbatim>\<open>TypeError\<close>.
\<close>

fun py_ge :: "pyval \<Rightarrow> pyval \<Rightarrow> py_error + bool" where
  "py_ge (PInt a) (PInt b) = Inr (b \<le> a)"
| "py_ge (PStr a) (PStr b) = Inr (map of_char b \<le> (map of_char a :: nat list))"
| "py_ge (PDate y m d) (PDate y' m' d') = Inr ((y', m', d') \<le> (y, m, d))"
| "py_ge a b = Inl TypeError"

subsection \<open>\<^verbatim>\<open>str\<close> and \<^verbatim>\<open>format(x, '.2f')\<close>\<close>

definition digit :: "nat \<Rightarrow> char" where
  "digit n = ''0123456789'' ! (n mod 10)"

fun str_nat :: "nat \<Rightarrow> string" where
  "str_nat n = (if n < 10 then [digit n] else str_nat (n div 10) @ [digit n])"

definition str_int :: "int \<Rightarrow> string" where
  "str_int i = (if i < 0 then CHR ''-'' # str_nat (nat (- i)) else str_nat (nat i))"

text \<open>A number padded with zeros on the left to \<open>w\<close> digits, as \<^verbatim>\<open>%04d\<close> and \<^verbatim>\<open>%02d\<close> do.\<close>

definition zero_pad :: "nat \<Rightarrow> nat \<Rightarrow> string" where
  "zero_pad w n = replicate (w - length (str_nat n)) CHR ''0'' @ str_nat n"

text \<open>\<^verbatim>\<open>f"{v}"\<close>: the \<^verbatim>\<open>str\<close> of a row value (a date prints in ISO format).\<close>

fun py_str :: "pyval \<Rightarrow> string" where
  "py_str PNone = ''None''"
| "py_str (PInt i) = str_int i"
| "py_str (PStr s) = s"
| "py_str (PDate y m d) = zero_pad 4 y @ ''-'' @ zero_pad 2 m @ ''-'' @ zero_pad 2 d"

text \<open>Rounding to the nearest integer, ties to the even one.\<close>

definition round_half_even :: "rat \<Rightarrow> int" where
  "round_half_even x =
     (let q = \<lfloor>x\<rfloor>; r = x - of_int q
      in if r < 1 / 2 then q else if 1 / 2 < r then q + 1 else if even q then q else q + 1)"

text \<open>
  \<^verbatim>\<open>f"{x:.2f}"\<close>: sign, integer part, a point and two decimals, rounded half to even as
  CPython rounds the value it prints. The value here is the exact quotient; CPython prints
  the double nearest to it, which gives the same digits unless the quotient lies within a
  double's rounding error of a tie. The theorems below evaluate the digits only at 13/2,
  7/2, 8 and 9, which are doubles.
\<close>

definition format_2f :: "rat \<Rightarrow> string" where
  "format_2f x =
     (let n = nat (round_half_even (\<bar>x\<bar> * 100))
      in (if x < 0 then ''-'' else []) @ str_nat (n div 100) @ ''.'' @ zero_pad 2 (n mod 100))"

section \<open>The tip functions\<close>

subsection \<open>\<^verbatim>\<open>diet_tips\<close>\<close>

text \<open>
  The loop \<^verbatim>\<open>for diet in diet_data: diet_avg += diet[4]; diets += 1\<close>, with the two
  accumulators as arguments.
\<close>

fun diet_loop :: "row list \<Rightarrow> int \<Rightarrow> nat \<Rightarrow> py_error + int \<times> nat" where
  "diet_loop [] diet_avg diets = Inr (diet_avg, diets)"
| "diet_loop (diet # rest) diet_avg diets =
     (case getitem diet 4 of
        Inl e \<Rightarrow> Inl e
      | Inr v \<Rightarrow>
          (case iadd diet_avg v of
             Inl e \<Rightarrow> Inl e
           | Inr diet_avg' \<Rightarrow> diet_loop rest diet_avg' (diets + 1)))"

fun diet_tips :: "row list \<Rightarrow> row list \<Rightarrow> py_error + string list" where
  "diet_tips [] goal_data = Inr [''Not enough data yet...'']"
| "diet_tips diet_data [] = Inr [''Not enough data yet...'']"
| "diet_tips (d0 # ds) (g0 # gs) =
     and_then (getitem d0 4) (\<lambda>newest.
     and_then (getitem g0 4) (\<lambda>goal.
     and_then (diet_loop (d0 # ds) 0 0) (\<lambda>(diet_sum, diets).
     and_then (truediv diet_sum diets) (\<lambda>diet_avg.
     and_then (float_ge diet_avg goal) (\<lambda>avg_ok.
     and_then (py_ge newest goal) (\<lambda>newest_ok.
     Inr ([if avg_ok
           then ''Your Average ('' @ format_2f diet_avg
                  @ '') currently meets or is passing your goal!''
           else ''Your Average ('' @ format_2f diet_avg
                  @ '') is currently below your goal!'']
          @ [if newest_ok
             then ''Your newest ('' @ py_str newest @ '') is above your goal! Keep it up!''
             else ''Your newest ('' @ py_str newest
                    @ '') is below your goal! Don't let this become a trend.''])))))))"

subsection \<open>\<^verbatim>\<open>workout_tips\<close>\<close>

fun work_loop :: "row list \<Rightarrow> int \<Rightarrow> nat \<Rightarrow> py_error + int \<times> nat" where
  "work_loop [] work_avg works = Inr (work_avg, works)"
| "work_loop (work # rest) work_avg works =
     (case getitem work 4 of
        Inl e \<Rightarrow> Inl e
      | Inr v \<Rightarrow>
          (case iadd work_avg v of
             Inl e \<Rightarrow> Inl e
           | Inr work_avg' \<Rightarrow> work_loop rest work_avg' (works + 1)))"

text \<open>
  The inner \<^verbatim>\<open>if newest >= 8\<close> compares the newest intensity with the literal 8; it stands
  inside the branch \<^verbatim>\<open>newest >= goal\<close>.
\<close>

fun workout_tips :: "row list \<Rightarrow> row list \<Rightarrow> py_error + string list" where
  "workout_tips [] goal_data = Inr [''Not enough data yet...'']"
| "workout_tips work_data [] = Inr [''Not enough data yet...'']"
| "workout_tips (w0 # ws) (g0 # gs) =
     and_then (getitem w0 4) (\<lambda>newest.
     and_then (getitem g0 3) (\<lambda>goal.
     and_then (work_loop (w0 # ws) 0 0) (\<lambda>(work_sum, works).
     and_then (truediv work_sum works) (\<lambda>work_avg.
     and_then (float_ge work_avg goal) (\<lambda>avg_ok.
     and_then (py_ge newest goal) (\<lambda>newest_ok.
     and_then (if newest_ok then py_ge newest (PInt 8) else Inr False) (\<lambda>intense.
     Inr ((if avg_ok
           then [''Your Average intensity ('' @ format_2f work_avg
                   @ '') currently meets or is passing your goal!'']
           else [''Your Average intensity ('' @ format_2f work_avg
                   @ '') is currently below your goal!'',
                 ''If you're using weights, try increasing the weight or amount of reps.''])
          @ (if newest_ok
             then [''Your most recent intensity ('' @ py_str newest
                     @ '') meets or is above your goal!'']
                  @ (if intense
                     then [''Try not to go too intense too often; it's okay to take a break occasionally.'']
                     else [])
             else [''Your newest ('' @ py_str newest @ '') is below your goal!'',
                   ''If you're taking a break that's okay, but try to increase the intensity when you're ready.''])))))))))"

subsection \<open>\<^verbatim>\<open>sleep_tips\<close>\<close>

text \<open>One pass adds both the duration (index 1) and the quality (index 4) of each row.\<close>

fun sleep_loop :: "row list \<Rightarrow> int \<Rightarrow> int \<Rightarrow> nat \<Rightarrow> py_error + int \<times> int \<times> nat" where
  "sleep_loop [] sleep_len_avg sleep_qual_avg sleeps = Inr (sleep_len_avg, sleep_qual_avg, sleeps)"
| "sleep_loop (sleep # rest) sleep_len_avg sleep_qual_avg sleeps =
     (case and_then (getitem sleep 1) (iadd sleep_len_avg) of
        Inl e \<Rightarrow> Inl e
      | Inr sleep_len_avg' \<Rightarrow>
          (case and_then (getitem sleep 4) (iadd sleep_qual_avg) of
             Inl e \<Rightarrow> Inl e
           | Inr sleep_qual_avg' \<Rightarrow>
               sleep_loop rest sleep_len_avg' sleep_qual_avg' (sleeps + 1)))"

fun sleep_tips :: "row list \<Rightarrow> row list \<Rightarrow> py_error + string list" where
  "sleep_tips [] goal_data = Inr [''Not enough data yet...'']"
| "sleep_tips sleep_data [] = Inr [''Not enough data yet...'']"
| "sleep_tips (s0 # ss) (g0 # gs) =
     and_then (getitem s0 1) (\<lambda>newest_len.
     and_then (getitem s0 4) (\<lambda>newest_qual.
     and_then (getitem g0 1) (\<lambda>goal_len.
     and_then (getitem g0 2) (\<lambda>goal_qual.
     and_then (sleep_loop (s0 # ss) 0 0 0) (\<lambda>(len_sum, qual_sum, sleeps).
     and_then (truediv len_sum sleeps) (\<lambda>sleep_len_avg.
     and_then (truediv qual_sum sleeps) (\<lambda>sleep_qual_avg.
     and_then (float_ge sleep_len_avg goal_len) (\<lambda>len_avg_ok.
     and_then (py_ge newest_len goal_len) (\<lambda>newest_len_ok.
     and_then (float_ge sleep_qual_avg goal_qual) (\<lambda>qual_avg_ok.
     and_then (py_ge newest_qual goal_qual) (\<lambda>newest_qual_ok.
     Inr ([if len_avg_ok
           then ''Your Average length of sleep ('' @ format_2f sleep_len_avg
                  @ '') currently meets or is passing your goal!''
           else ''Your Average length of sleep ('' @ format_2f sleep_len_avg
                  @ '') is currently below your goal!'']
          @ [if newest_len_ok
             then ''Your newest length of sleep ('' @ py_str newest_len
                    @ '') is above your goal! Keep it up!''
             else ''Your newest length of sleep ('' @ py_str newest_len
                    @ '') is below your goal! Don't let this become a trend.'']
          @ (if qual_avg_ok
             then [''Your average quality of sleep('' @ format_2f sleep_qual_avg
                     @ '') is above your goal! Keep it up!'']
             else [''Your average quality of sleep ('' @ format_2f sleep_qual_avg
                     @ '') is currently below your goal!'',
                   ''For better sleep quality, try not to use any screens for at least an hour before bed.''])
          @ [if newest_qual_ok
             then ''Your most recent sleep ('' @ py_str newest_qual
                    @ '') meets or is above your goal!''
             else ''Your most recent sleep ('' @ py_str newest_qual
                    @ '') is below your goal!'']))))))))))))"

subsection \<open>What the tip theorems speak about\<close>

text \<open>
  The integer a row holds at an index, if it holds one; a column of integers over a list of
  rows; the arithmetic mean of a list of integers.
\<close>

definition int_at :: "nat \<Rightarrow> row \<Rightarrow> int option" where
  "int_at i r = (if i < length r then (case r ! i of PInt n \<Rightarrow> Some n | _ \<Rightarrow> None) else None)"

definition holds_ints :: "nat \<Rightarrow> row list \<Rightarrow> int list \<Rightarrow> bool" where
  "holds_ints i rows vals \<longleftrightarrow> map (int_at i) rows = map Some vals"











section \<open>The storage and the routes\<close>

subsection \<open>The database\<close>

text \<open>
  The tables of schema \<^verbatim>\<open>habits\<close> that the routes name, with the columns their statements
  name. \<^verbatim>\<open>user_detail\<close>, \<^verbatim>\<open>goals\<close> and \<^verbatim>\<open>feedback\<close> are lists of typed rows in insertion
  order. A goal column stores the bound form value (a string, or NULL); the conversion to
  the column's type is the server's and is not modelled.
\<close>

record user_row =
  user_detail_id :: nat
  user_detail_username :: string
  user_detail_password :: string

record goal_row =
  g_sleep_len_goal :: "string option"
  g_better_sleep :: "string option"
  g_intensity :: "string option"
  g_diet :: "string option"
  g_user_detail_id :: nat

record feedback_row =
  f_feedback_id :: nat
  f_user_detail_id :: nat
  f_feedback_type :: string
  f_feedback_page :: string
  f_feedback_message :: string
  f_feedback_rating :: "int option"
  f_contact_email :: "string option"
  f_created_at :: nat

text \<open>
  \<^verbatim>\<open>get_data\<close> and \<^verbatim>\<open>get_chart_data\<close> build their statement from a table name and column
  names, so the tables they read are kept by name, each with its column names and its
  rows as tuples in column order.
\<close>

record table =
  columns :: "string list"
  table_rows :: "row list"

text \<open>
  Whether \<^verbatim>\<open>psycopg2.connect\<close> and \<^verbatim>\<open>cur.execute\<close> succeed is part of the state: the server
  is up, or connecting fails, or connecting works and every statement fails.
\<close>

datatype availability = Up | ConnectFails | ExecuteFails

record db =
  status :: availability
  habits_user_detail :: "user_row list"
  user_detail_seq :: nat
  habits_goals :: "goal_row list"
  habits_feedback :: "feedback_row list"
  feedback_seq :: nat
  habit_tables :: "string \<Rightarrow> table option"

definition get_db_connection :: "db \<Rightarrow> py_error + unit" where
  "get_db_connection d = (if status d = ConnectFails then Inl Psycopg2Error else Inr ())"

text \<open>A statement reaches the server only when the server executes statements.\<close>

definition cur_execute :: "db \<Rightarrow> py_error + unit" where
  "cur_execute d = (if status d = ExecuteFails then Inl Psycopg2Error else Inr ())"

datatype http_method = GET | POST

text \<open>
  What a view function returns: \<^verbatim>\<open>render_template(name, ...)\<close> with the part of the
  template context the model keeps, or \<^verbatim>\<open>redirect(path)\<close>.
\<close>

datatype 'c response = Render string 'c | Redirect string

subsection \<open>\<^verbatim>\<open>get_data\<close> and \<^verbatim>\<open>get_chart_data\<close>\<close>

text \<open>
  The order of \<^verbatim>\<open>ORDER BY\<close> on one column: NULL sorts above every value; integers by
  value, dates by year, month and day, text by code point.
\<close>

fun sql_key :: "pyval \<Rightarrow> nat \<times> int list" where
  "sql_key PNone = (1, [])"
| "sql_key (PInt i) = (0, [i])"
| "sql_key (PStr s) = (0, map of_char s)"
| "sql_key (PDate y m d) = (0, [int y, int m, int d])"

definition column_index :: "table \<Rightarrow> string \<Rightarrow> nat option" where
  "column_index t c =
     (if c \<in> set (columns t) then Some (length (takeWhile (\<lambda>x. x \<noteq> c) (columns t))) else None)"

definition cell :: "row \<Rightarrow> nat \<Rightarrow> pyval" where
  "cell r i = (if i < length r then r ! i else PNone)"

text \<open>
  \<^verbatim>\<open>SELECT * FROM habits.T WHERE user_detail_id = %s ORDER BY T_date DESC\<close>: the statement
  fails when the server fails it, when there is no table \<open>T\<close>, or when \<open>T\<close> has no column
  \<^verbatim>\<open>user_detail_id\<close> or \<^verbatim>\<open>T_date\<close>. The table name is an identifier: a name that is not a
  table's fails the statement.
\<close>

definition select_all_by_date_desc :: "db \<Rightarrow> string \<Rightarrow> nat \<Rightarrow> py_error + row list" where
  "select_all_by_date_desc d table_name user =
     and_then (cur_execute d) (\<lambda>_.
       (case habit_tables d table_name of
          None \<Rightarrow> Inl Psycopg2Error
        | Some t \<Rightarrow>
            (case (column_index t ''user_detail_id'', column_index t (table_name @ ''_date'')) of
               (Some u, Some dc) \<Rightarrow>
                 Inr (rev (sort_key (\<lambda>r. sql_key (cell r dc))
                        (filter (\<lambda>r. cell r u = PInt (int user)) (table_rows t))))
             | _ \<Rightarrow> Inl Psycopg2Error)))"

text \<open>
  \<^verbatim>\<open>get_data\<close>: the connection and the cursor are opened before the \<^verbatim>\<open>try\<close>; the \<^verbatim>\<open>try\<close>
  holds \<^verbatim>\<open>execute\<close> and \<^verbatim>\<open>fetchall\<close>, and \<^verbatim>\<open>except psycopg2.Error\<close> returns \<^verbatim>\<open>[]\<close>. The current
  user is an argument.
\<close>

definition get_data :: "db \<Rightarrow> nat \<Rightarrow> string \<Rightarrow> py_error + row list" where
  "get_data d user table_name =
     and_then (get_db_connection d) (\<lambda>conn.
       (case select_all_by_date_desc d table_name user of
          Inr rows \<Rightarrow> Inr rows
        | Inl Psycopg2Error \<Rightarrow> Inr []
        | Inl e \<Rightarrow> Inl e))"

text \<open>
  \<^verbatim>\<open>SELECT date_column, value_column FROM habits.T WHERE user_detail_id = %s ORDER BY
  date_column\<close>: ascending, NULL last.
\<close>

definition select_chart_by_date ::
    "db \<Rightarrow> string \<Rightarrow> string \<Rightarrow> string \<Rightarrow> nat \<Rightarrow> py_error + (pyval \<times> pyval) list" where
  "select_chart_by_date d table_name date_column value_column user =
     and_then (cur_execute d) (\<lambda>_.
       (case habit_tables d table_name of
          None \<Rightarrow> Inl Psycopg2Error
        | Some t \<Rightarrow>
            (case (column_index t ''user_detail_id'', column_index t date_column,
                   column_index t value_column) of
               (Some u, Some dc, Some vc) \<Rightarrow>
                 Inr (sort_key (\<lambda>p. sql_key (fst p))
                        (map (\<lambda>r. (cell r dc, cell r vc))
                          (filter (\<lambda>r. cell r u = PInt (int user)) (table_rows t))))
             | _ \<Rightarrow> Inl Psycopg2Error)))"

definition get_chart_data ::
    "db \<Rightarrow> nat \<Rightarrow> string \<Rightarrow> string \<Rightarrow> string \<Rightarrow> py_error + (pyval \<times> pyval) list" where
  "get_chart_data d user table_name date_column value_column =
     and_then (get_db_connection d) (\<lambda>conn.
       (case select_chart_by_date d table_name date_column value_column user of
          Inr rows \<Rightarrow> Inr rows
        | Inl Psycopg2Error \<Rightarrow> Inr []
        | Inl e \<Rightarrow> Inl e))"

subsection \<open>\<^verbatim>\<open>register\<close>\<close>

text \<open>
  \<^verbatim>\<open>request.form\<close> is a map from field names to strings; \<^verbatim>\<open>request.form[k]\<close> on a missing
  field raises (Flask answers 400). \<^verbatim>\<open>generate_password_hash\<close> draws a salt, so the hash
  function is an argument. The template context kept is the \<^verbatim>\<open>error\<close> argument.
\<close>

definition form_item :: "(string \<Rightarrow> string option) \<Rightarrow> string \<Rightarrow> py_error + string" where
  "form_item form k = (case form k of None \<Rightarrow> Inl BadRequestKeyError | Some v \<Rightarrow> Inr v)"

definition register ::
    "(string \<Rightarrow> string) \<Rightarrow> db \<Rightarrow> http_method \<Rightarrow> (string \<Rightarrow> string option)
       \<Rightarrow> py_error + (string option response \<times> db)" where
  "register generate_password_hash d request_method form =
     (if request_method = POST
      then
        and_then (form_item form ''username'') (\<lambda>username.
        and_then (form_item form ''password'') (\<lambda>password.
        let password_hash = generate_password_hash password in
        and_then (get_db_connection d) (\<lambda>conn.
        and_then (cur_execute d) (\<lambda>_.
        let existing_user =
              find (\<lambda>u. user_detail_username u = username) (habits_user_detail d)
        in if existing_user \<noteq> None
           then Inr (Render ''signup.html'' (Some ''Username taken!''), d)
           else
             and_then (cur_execute d) (\<lambda>_.
             Inr (Redirect ''/login'',
                  d\<lparr>habits_user_detail :=
                       habits_user_detail d
                       @ [\<lparr>user_detail_id = user_detail_seq d,
                           user_detail_username = username,
                           user_detail_password = password_hash\<rparr>],
                     user_detail_seq := user_detail_seq d + 1\<rparr>))))))
      else Inr (Render ''signup.html'' None, d))"

subsection \<open>\<^verbatim>\<open>goals\<close>\<close>



subsection \<open>\<^verbatim>\<open>feedback\<close>\<close>

text \<open>
  \<^verbatim>\<open>str.strip\<close>, \<^verbatim>\<open>str.lower\<close> and \<^verbatim>\<open>int(str)\<close> on ASCII text. Whitespace is what
  \<^verbatim>\<open>str.isspace\<close> accepts below 128. \<^verbatim>\<open>int\<close> strips whitespace, takes one optional sign and
  then decimal digits, where single underscores may stand between digits.
\<close>

definition is_space :: "char \<Rightarrow> bool" where
  "is_space c = ((of_char c :: nat) \<in> {9, 10, 11, 12, 13, 28, 29, 30, 31, 32})"

definition strip :: "string \<Rightarrow> string" where
  "strip s = rev (dropWhile is_space (rev (dropWhile is_space s)))"

definition lower :: "string \<Rightarrow> string" where
  "lower s =
     map (\<lambda>c. if 65 \<le> (of_char c :: nat) \<and> (of_char c :: nat) \<le> 90
              then char_of (of_char c + 32 :: nat) else c) s"

definition is_digit :: "char \<Rightarrow> bool" where
  "is_digit c = (48 \<le> (of_char c :: nat) \<and> (of_char c :: nat) \<le> 57)"

fun digits_value :: "string \<Rightarrow> nat \<Rightarrow> nat option" where
  "digits_value [] acc = Some acc"
| "digits_value (c # cs) acc =
     (if is_digit c then digits_value cs (acc * 10 + (of_char c - 48))
      else if c = CHR ''_'' \<and> cs \<noteq> [] \<and> is_digit (hd cs) then digits_value cs acc
      else None)"

definition py_int :: "string \<Rightarrow> py_error + int" where
  "py_int s =
     (let t = strip s;
          negative = (t \<noteq> [] \<and> hd t = CHR ''-'');
          body = (if t \<noteq> [] \<and> (hd t = CHR ''-'' \<or> hd t = CHR ''+'') then tl t else t)
      in if body = [] \<or> \<not> is_digit (hd body) then Inl ValueError
         else (case digits_value body 0 of
                 None \<Rightarrow> Inl ValueError
               | Some n \<Rightarrow> Inr (if negative then - int n else int n)))"

text \<open>
  The \<^verbatim>\<open>try\<close> block of the route: \<^verbatim>\<open>r_val = int(rating) if rating else None\<close>, then the
  range check; \<^verbatim>\<open>except ValueError\<close> gives \<^verbatim>\<open>None\<close>.
\<close>

definition rating_coercion :: "string option \<Rightarrow> py_error + int option" where
  "rating_coercion rating =
     (case (case rating of
              None \<Rightarrow> Inr None
            | Some s \<Rightarrow> if s = [] then Inr None else and_then (py_int s) (\<lambda>n. Inr (Some n))) of
        Inr r_val \<Rightarrow>
          Inr (case r_val of
                 None \<Rightarrow> None
               | Some n \<Rightarrow> if \<not> (1 \<le> n \<and> n \<le> 5) then None else Some n)
      | Inl ValueError \<Rightarrow> Inr None
      | Inl e \<Rightarrow> Inl e)"

text \<open>\<^verbatim>\<open>(request.form.get(k) or "")\<close>\<close>

definition get_or_empty :: "(string \<Rightarrow> string option) \<Rightarrow> string \<Rightarrow> string" where
  "get_or_empty form k = (case form k of None \<Rightarrow> [] | Some v \<Rightarrow> v)"

text \<open>
  The row that \<^verbatim>\<open>_get_feedback_for_user\<close> selects from a stored row:
  \<^verbatim>\<open>COALESCE(feedback_rating, 0)\<close> stands in the rating's place.
\<close>

definition coalesce :: "'a option \<Rightarrow> 'a \<Rightarrow> 'a option" where
  "coalesce x y = (case x of None \<Rightarrow> Some y | Some v \<Rightarrow> Some v)"

definition feedback_select_list :: "feedback_row \<Rightarrow> feedback_row" where
  "feedback_select_list r = r\<lparr>f_feedback_rating := coalesce (f_feedback_rating r) 0\<rparr>"

text \<open>
  \<^verbatim>\<open>_get_feedback_for_user(limit)\<close>: no \<^verbatim>\<open>try\<close>; \<^verbatim>\<open>ORDER BY created_at DESC LIMIT %s\<close>, and
  the server refuses a negative limit. The current user is an argument.
\<close>

definition get_feedback_for_user :: "db \<Rightarrow> nat \<Rightarrow> int \<Rightarrow> py_error + feedback_row list" where
  "get_feedback_for_user d user limit =
     and_then (get_db_connection d) (\<lambda>conn.
     and_then (cur_execute d) (\<lambda>_.
     if limit < 0 then Inl Psycopg2Error
     else Inr (take (nat limit)
                 (rev (sort_key f_created_at
                    (map feedback_select_list
                      (filter (\<lambda>r. f_user_detail_id r = user) (habits_feedback d))))))))"

text \<open>
  The route, for the logged-in user \<open>user\<close>. The server gives the new row its id and its
  \<^verbatim>\<open>created_at\<close>; the server's clock at the insert is the argument \<open>now\<close>.
\<close>

definition feedback ::
    "db \<Rightarrow> nat \<Rightarrow> nat \<Rightarrow> http_method \<Rightarrow> (string \<Rightarrow> string option)
       \<Rightarrow> py_error + (feedback_row list response \<times> db)" where
  "feedback d user now request_method form =
     (if request_method = POST
      then
        let ftype = lower (strip (get_or_empty form ''type''));
            fpage = lower (strip (get_or_empty form ''page''));
            msg = strip (get_or_empty form ''message'');
            rating = form ''rating'';
            email = strip (get_or_empty form ''email'')
        in
        and_then (rating_coercion rating) (\<lambda>r_val.
        and_then (get_db_connection d) (\<lambda>conn.
        and_then (cur_execute d) (\<lambda>_.
        Inr (Redirect ''/feedback'',
             d\<lparr>habits_feedback :=
                  habits_feedback d
                  @ [\<lparr>f_feedback_id = feedback_seq d, f_user_detail_id = user,
                      f_feedback_type = ftype, f_feedback_page = fpage,
                      f_feedback_message = msg, f_feedback_rating = r_val,
                      f_contact_email = (if email \<noteq> [] then Some email else None),
                      f_created_at = now\<rparr>],
                feedback_seq := feedback_seq d + 1\<rparr>))))
      else
        and_then (get_feedback_for_user d user 20) (\<lambda>fb_rows.
        Inr (Render ''feedback.html'' fb_rows, d)))"

subsection \<open>What the storage theorems speak about\<close>




section \<open>Properties of the tip functions\<close>

subsection \<open>Sequencing and the loops\<close>

lemma and_then_Inl [simp]: "and_then (Inl e) f = Inl e"
  by (simp add: and_then_def)

lemma and_then_Inr [simp]: "and_then (Inr x) f = f x"
  by (simp add: and_then_def)

lemma and_then_eq_Inr: "and_then m f = Inr y \<longleftrightarrow> (\<exists>x. m = Inr x \<and> f x = Inr y)"
  by (cases m) simp_all



lemma holds_ints_Nil [simp]: "holds_ints i [] vals \<longleftrightarrow> vals = []"
  by (auto simp: holds_ints_def)






subsection \<open>The result on rows that hold integers\<close>




lemma diet_tips_hd:
  "diet_tips (d # ds) (g # gs) = Inr tips \<Longrightarrow> list_all (\<lambda>t. hd t \<noteq> CHR ''N'') tips"
  by (clarsimp simp: and_then_eq_Inr)

lemma workout_tips_hd:
  "workout_tips (d # ds) (g # gs) = Inr tips \<Longrightarrow> list_all (\<lambda>t. hd t \<noteq> CHR ''N'') tips"
  by (clarsimp simp: and_then_eq_Inr)

lemma sleep_tips_hd:
  "sleep_tips (d # ds) (g # gs) = Inr tips \<Longrightarrow> list_all (\<lambda>t. hd t \<noteq> CHR ''N'') tips"
  by (clarsimp simp: and_then_eq_Inr)

lemma no_ned: "list_all (\<lambda>t. hd t \<noteq> CHR ''N'') tips \<Longrightarrow> ''Not enough data yet...'' \<notin> set tips"
  by (auto simp: list_all_iff)




text \<open>
  C1. Each of the three tip functions returns exactly the one-element list
  \<^verbatim>\<open>["Not enough data yet..."]\<close> if and only if the entries list or the goals list is empty;
  when both are non-empty, that string is not in the list the function returns.
\<close>

theorem not_enough_data_iff:
  "(sleep_tips E G = Inr [''Not enough data yet...''] \<longleftrightarrow> E = [] \<or> G = [])
   \<and> (diet_tips E G = Inr [''Not enough data yet...''] \<longleftrightarrow> E = [] \<or> G = [])
   \<and> (workout_tips E G = Inr [''Not enough data yet...''] \<longleftrightarrow> E = [] \<or> G = [])
   \<and> (E \<noteq> [] \<and> G \<noteq> [] \<longrightarrow>
        (\<forall>tips. sleep_tips E G = Inr tips \<longrightarrow> ''Not enough data yet...'' \<notin> set tips)
      \<and> (\<forall>tips. diet_tips E G = Inr tips \<longrightarrow> ''Not enough data yet...'' \<notin> set tips)
      \<and> (\<forall>tips. workout_tips E G = Inr tips \<longrightarrow> ''Not enough data yet...'' \<notin> set tips))"
proof (cases E)
  case Nil
  then show ?thesis by simp
next
  case E: (Cons d ds)
  show ?thesis
  proof (cases G)
    case Nil
    with E show ?thesis by simp
  next
    case G: (Cons g gs)
    have s: "''Not enough data yet...'' \<notin> set tips" if "sleep_tips E G = Inr tips" for tips
      using that unfolding E G by (intro no_ned sleep_tips_hd)
    have d: "''Not enough data yet...'' \<notin> set tips" if "diet_tips E G = Inr tips" for tips
      using that unfolding E G by (intro no_ned diet_tips_hd)
    have w: "''Not enough data yet...'' \<notin> set tips" if "workout_tips E G = Inr tips" for tips
      using that unfolding E G by (intro no_ned workout_tips_hd)
    have "sleep_tips E G \<noteq> Inr [''Not enough data yet...'']"
      using s[of "[''Not enough data yet...'']"] by auto
    moreover have "diet_tips E G \<noteq> Inr [''Not enough data yet...'']"
      using d[of "[''Not enough data yet...'']"] by auto
    moreover have "workout_tips E G \<noteq> Inr [''Not enough data yet...'']"
      using w[of "[''Not enough data yet...'']"] by auto
    ultimately show ?thesis using s d w E G by simp
  qed
qed

theorem not_enough_data_iff_witness:
  "sleep_tips [] [[PInt 1, PInt 7, PInt 4, PInt 5, PInt 3, PInt 9]] = Inr [''Not enough data yet...'']
   \<and> diet_tips [[PInt 1, PStr ''Salad'', PDate 2024 1 2, PStr '''', PInt 4, PInt 9]] []
       = Inr [''Not enough data yet...'']
   \<and> workout_tips [[PInt 1, PStr ''Run'', PDate 2024 1 2, PInt 30, PInt 9, PStr ''cardio'',
                    PStr '''', PInt 3, PInt 9]]
        [[PInt 1, PInt 7, PInt 4, PInt 5, PInt 3, PInt 9]]
       = Inr [''Your Average intensity (9.00) currently meets or is passing your goal!'',
              ''Your most recent intensity (9) meets or is above your goal!'',
              ''Try not to go too intense too often; it's okay to take a break occasionally.'']
   \<and> ''Not enough data yet...''
       \<notin> set [''Your Average intensity (9.00) currently meets or is passing your goal!'',
               ''Your most recent intensity (9) meets or is above your goal!'',
               ''Try not to go too intense too often; it's okay to take a break occasionally.'']"
proof -
  let ?E = "[[PInt 1, PStr ''Run'', PDate 2024 1 2, PInt 30, PInt 9, PStr ''cardio'',
              PStr '''', PInt 3, PInt 9]]"
  let ?G = "[[PInt 1, PInt 7, PInt 4, PInt 5, PInt 3, PInt 9]]"
  let ?T = "[''Your Average intensity (9.00) currently meets or is passing your goal!'',
             ''Your most recent intensity (9) meets or is above your goal!'',
             ''Try not to go too intense too often; it's okay to take a break occasionally.'']"
  have run: "workout_tips ?E ?G = Inr ?T"
    by code_simp
  have ne: "?E \<noteq> [] \<and> ?G \<noteq> []"
    by simp
  have "''Not enough data yet...'' \<notin> set ?T"
    using not_enough_data_iff[of ?E ?G] ne run by blast
  moreover have "sleep_tips [] ?G = Inr [''Not enough data yet...'']"
    using not_enough_data_iff[of "[]" ?G] by blast
  moreover have "diet_tips [[PInt 1, PStr ''Salad'', PDate 2024 1 2, PStr '''', PInt 4, PInt 9]] []
       = Inr [''Not enough data yet...'']"
    using not_enough_data_iff[of "[[PInt 1, PStr ''Salad'', PDate 2024 1 2, PStr '''', PInt 4, PInt 9]]" "[]"]
    by blast
  ultimately show ?thesis using run by blast
qed









lemma format_2f_13_2: "format_2f (13 / 2) = ''6.50''"
  by code_simp

lemma format_2f_7_2: "format_2f (7 / 2) = ''3.50''"
  by code_simp

lemma str_int_6: "str_int 6 = ''6''"
  by code_simp

lemma str_int_3: "str_int 3 = ''3''"
  by code_simp

text \<open>
  C4. Two sleep entries, newest first, with durations 6 and 7 and qualities 3 and 4, and a
  goal with length 7 and quality 4: \<open>sleep_tips\<close> returns exactly five strings, the
  below-goal average duration, the below-goal newest duration, the below-goal average
  quality, the screen-time suggestion and the below-goal newest quality. The other columns
  of the rows are arbitrary.
\<close>

theorem sleep_tips_scenario:
  "sleep_tips [[i1, PInt 6, d1, l1, PInt 3] @ r1, [i2, PInt 7, d2, l2, PInt 4] @ r2]
              (([gi, PInt 7, PInt 4] @ gr) # gs)
     = Inr [''Your Average length of sleep (6.50) is currently below your goal!'',
            ''Your newest length of sleep (6) is below your goal! Don't let this become a trend.'',
            ''Your average quality of sleep (3.50) is currently below your goal!'',
            ''For better sleep quality, try not to use any screens for at least an hour before bed.'',
            ''Your most recent sleep (3) is below your goal!'']"
  by (simp add: getitem_def truediv_def format_2f_13_2 format_2f_7_2 str_int_6 str_int_3)










section \<open>Properties of the storage accessors and the routes\<close>

subsection \<open>\<^verbatim>\<open>get_data\<close> and \<^verbatim>\<open>get_chart_data\<close>\<close>









text \<open>
  A failure to connect is not a failing statement: \<^verbatim>\<open>get_db_connection()\<close> stands before
  the \<^verbatim>\<open>try\<close>, so its exception leaves both accessors.
\<close>

lemma read_accessors_raise_when_connect_fails:
  assumes "status d = ConnectFails"
  shows "get_data d u t = Inl Psycopg2Error"
    and "get_chart_data d u t dcn vcn = Inl Psycopg2Error"
  using assms by (simp_all add: get_data_def get_chart_data_def get_db_connection_def)

subsection \<open>\<^verbatim>\<open>goals\<close>\<close>









subsection \<open>\<^verbatim>\<open>register\<close>\<close>

lemma find_username:
  "find (\<lambda>u. user_detail_username u = name) rows \<noteq> None
     \<longleftrightarrow> name \<in> user_detail_username ` set rows"
  by (auto simp: find_None_iff)

lemma register_taken:
  assumes "status d = Up" and "form ''username'' = Some name" and "form ''password'' = Some pw"
    and "name \<in> user_detail_username ` set (habits_user_detail d)"
  shows "register h d POST form = Inr (Render ''signup.html'' (Some ''Username taken!''), d)"
  using assms find_username[of name "habits_user_detail d"]
  by (simp add: register_def form_item_def get_db_connection_def cur_execute_def Let_def)

lemma register_fresh:
  assumes "status d = Up" and "form ''username'' = Some name" and "form ''password'' = Some pw"
    and "name \<notin> user_detail_username ` set (habits_user_detail d)"
  shows "register h d POST form =
           Inr (Redirect ''/login'',
                d\<lparr>habits_user_detail :=
                     habits_user_detail d
                     @ [\<lparr>user_detail_id = user_detail_seq d, user_detail_username = name,
                         user_detail_password = h pw\<rparr>],
                   user_detail_seq := user_detail_seq d + 1\<rparr>)"
  using assms find_username[of name "habits_user_detail d"]
  by (simp add: register_def form_item_def get_db_connection_def cur_execute_def Let_def)

lemma register_keeps_distinct:
  assumes "register h d m form = Inr (r, d')"
    and "distinct (map user_detail_username (habits_user_detail d))"
  shows "distinct (map user_detail_username (habits_user_detail d'))"
proof (cases "m = POST \<and> status d = Up \<and> (\<exists>name pw. form ''username'' = Some name
    \<and> form ''password'' = Some pw
    \<and> name \<notin> user_detail_username ` set (habits_user_detail d))")
  case True
  then obtain name pw where f: "form ''username'' = Some name" "form ''password'' = Some pw"
    "name \<notin> user_detail_username ` set (habits_user_detail d)" and m: "m = POST" "status d = Up"
    by blast
  from register_fresh[OF m(2) f, of h] assms(1) m(1)
  have "habits_user_detail d' = habits_user_detail d
      @ [\<lparr>user_detail_id = user_detail_seq d, user_detail_username = name,
          user_detail_password = h pw\<rparr>]"
    by auto
  with assms(2) f(3) show ?thesis by simp
next
  case False
  have "d' = d"
    using assms(1) False find_username[of _ "habits_user_detail d"]
    by (cases "status d")
      (auto simp: register_def form_item_def get_db_connection_def cur_execute_def Let_def
        and_then_eq_Inr split: if_splits option.splits)
  with assms(2) show ?thesis by simp
qed

text \<open>
  C7. With the storage up, registering a username that a row of \<^verbatim>\<open>user_detail\<close> already
  has answers with the sign-up page and the error "Username taken!" and leaves the database
  as it was. Hence, after any registration of a username, a second registration of the same
  username (with any password) gets that answer and inserts nothing; and no registration
  makes two rows with one username out of a table that had none.
\<close>

theorem register_duplicate_username:
  "(status d = Up \<and> form ''username'' = Some name \<and> form ''password'' = Some pw
      \<and> name \<in> user_detail_username ` set (habits_user_detail d)
      \<longrightarrow> register h d POST form = Inr (Render ''signup.html'' (Some ''Username taken!''), d))
   \<and> (status d = Up \<and> form ''username'' = Some name \<and> form ''password'' = Some pw
      \<longrightarrow> (\<exists>r1 d1. register h d POST form = Inr (r1, d1)
             \<and> (\<forall>pw2. register h d1 POST (form(''password'' \<mapsto> pw2))
                    = Inr (Render ''signup.html'' (Some ''Username taken!''), d1))))
   \<and> (\<forall>r d'. register h d m form = Inr (r, d')
        \<and> distinct (map user_detail_username (habits_user_detail d))
      \<longrightarrow> distinct (map user_detail_username (habits_user_detail d')))"
proof (intro conjI impI allI)
  assume "status d = Up \<and> form ''username'' = Some name \<and> form ''password'' = Some pw
      \<and> name \<in> user_detail_username ` set (habits_user_detail d)"
  then show "register h d POST form = Inr (Render ''signup.html'' (Some ''Username taken!''), d)"
    by (blast intro: register_taken)
next
  assume a: "status d = Up \<and> form ''username'' = Some name \<and> form ''password'' = Some pw"
  show "\<exists>r1 d1. register h d POST form = Inr (r1, d1)
             \<and> (\<forall>pw2. register h d1 POST (form(''password'' \<mapsto> pw2))
                    = Inr (Render ''signup.html'' (Some ''Username taken!''), d1))"
  proof (cases "name \<in> user_detail_username ` set (habits_user_detail d)")
    case True
    have "register h d POST form = Inr (Render ''signup.html'' (Some ''Username taken!''), d)"
      using a True by (blast intro: register_taken)
    moreover have "register h d POST (form(''password'' \<mapsto> pw2))
        = Inr (Render ''signup.html'' (Some ''Username taken!''), d)" for pw2
      using a True by (intro register_taken[where name = name and pw = pw2]) simp_all
    ultimately show ?thesis by blast
  next
    case False
    define d1 where "d1 = d\<lparr>habits_user_detail :=
        habits_user_detail d
        @ [\<lparr>user_detail_id = user_detail_seq d, user_detail_username = name,
            user_detail_password = h pw\<rparr>],
      user_detail_seq := user_detail_seq d + 1\<rparr>"
    have "register h d POST form = Inr (Redirect ''/login'', d1)"
      unfolding d1_def using a False by (blast intro: register_fresh)
    moreover have "register h d1 POST (form(''password'' \<mapsto> pw2))
        = Inr (Render ''signup.html'' (Some ''Username taken!''), d1)" for pw2
      using a by (intro register_taken[where name = name and pw = pw2]) (simp_all add: d1_def)
    ultimately show ?thesis by blast
  qed
next
  fix r d'
  assume "register h d m form = Inr (r, d')
        \<and> distinct (map user_detail_username (habits_user_detail d))"
  then show "distinct (map user_detail_username (habits_user_detail d'))"
    using register_keeps_distinct by blast
qed

theorem register_duplicate_username_witness:
  "register (\<lambda>p. ''pbkdf2:'' @ p)
     \<lparr>status = Up,
      habits_user_detail = [\<lparr>user_detail_id = 1, user_detail_username = ''ann'',
                             user_detail_password = ''pbkdf2:pw''\<rparr>],
      user_detail_seq = 2, habits_goals = [], habits_feedback = [], feedback_seq = 1,
      habit_tables = (\<lambda>n. None)\<rparr>
     POST [''username'' \<mapsto> ''ann'', ''password'' \<mapsto> ''other'']
   = Inr (Render ''signup.html'' (Some ''Username taken!''),
          \<lparr>status = Up,
           habits_user_detail = [\<lparr>user_detail_id = 1, user_detail_username = ''ann'',
                                  user_detail_password = ''pbkdf2:pw''\<rparr>],
           user_detail_seq = 2, habits_goals = [], habits_feedback = [], feedback_seq = 1,
           habit_tables = (\<lambda>n. None)\<rparr>)
   \<and> (\<exists>r1 d1. register (\<lambda>p. ''pbkdf2:'' @ p)
         \<lparr>status = Up, habits_user_detail = [], user_detail_seq = 1, habits_goals = [],
          habits_feedback = [], feedback_seq = 1, habit_tables = (\<lambda>n. None)\<rparr>
         POST [''username'' \<mapsto> ''bob'', ''password'' \<mapsto> ''pw''] = Inr (r1, d1)
        \<and> register (\<lambda>p. ''pbkdf2:'' @ p) d1
            POST [''username'' \<mapsto> ''bob'', ''password'' \<mapsto> ''pw2'']
          = Inr (Render ''signup.html'' (Some ''Username taken!''), d1))"
proof -
  let ?h = "\<lambda>p. ''pbkdf2:'' @ p"
  let ?d = "\<lparr>status = Up,
      habits_user_detail = [\<lparr>user_detail_id = 1, user_detail_username = ''ann'',
                             user_detail_password = ''pbkdf2:pw''\<rparr>],
      user_detail_seq = 2, habits_goals = [], habits_feedback = [], feedback_seq = 1,
      habit_tables = (\<lambda>n. None)\<rparr>"
  let ?e = "\<lparr>status = Up, habits_user_detail = [], user_detail_seq = 1, habits_goals = [],
          habits_feedback = [], feedback_seq = 1, habit_tables = (\<lambda>n. None)\<rparr>"
  let ?f = "[''username'' \<mapsto> ''ann'', ''password'' \<mapsto> ''other'']"
  let ?g = "[''username'' \<mapsto> ''bob'', ''password'' \<mapsto> ''pw'']"
  have a: "status ?d = Up \<and> ?f ''username'' = Some ''ann'' \<and> ?f ''password'' = Some ''other''
      \<and> ''ann'' \<in> user_detail_username ` set (habits_user_detail ?d)"
    by simp
  have b: "status ?e = Up \<and> ?g ''username'' = Some ''bob'' \<and> ?g ''password'' = Some ''pw''"
    by simp
  have g2: "?g(''password'' \<mapsto> ''pw2'') = [''username'' \<mapsto> ''bob'', ''password'' \<mapsto> ''pw2'']"
    by simp
  have "register ?h ?d POST ?f = Inr (Render ''signup.html'' (Some ''Username taken!''), ?d)"
    using register_duplicate_username[of ?d ?f "''ann''" "''other''" ?h] a by blast
  moreover have "\<exists>r1 d1. register ?h ?e POST ?g = Inr (r1, d1)
        \<and> register ?h d1 POST (?g(''password'' \<mapsto> ''pw2''))
          = Inr (Render ''signup.html'' (Some ''Username taken!''), d1)"
    using register_duplicate_username[of ?e ?g "''bob''" "''pw''" ?h] b by blast
  ultimately show ?thesis unfolding g2 by blast
qed

subsection \<open>\<^verbatim>\<open>feedback\<close>\<close>

lemma py_int_raises_ValueError: "py_int s = Inl e \<Longrightarrow> e = ValueError"
  by (auto simp: py_int_def Let_def split: if_splits option.splits)

lemma rating_coercion_absent:
  assumes "\<forall>s n. rating = Some s \<and> py_int s = Inr n \<longrightarrow> n < 1 \<or> 5 < n"
  shows "rating_coercion rating = Inr None"
proof (cases rating)
  case None
  then show ?thesis by (simp add: rating_coercion_def)
next
  case (Some s)
  show ?thesis
  proof (cases "py_int s")
    case (Inl e)
    then have "e = ValueError" by (rule py_int_raises_ValueError)
    with Inl Some show ?thesis by (simp add: rating_coercion_def)
  next
    case (Inr n)
    with assms Some have "n < 1 \<or> 5 < n" by blast
    with Inr Some show ?thesis by (auto simp: rating_coercion_def)
  qed
qed

lemma rating_coercion_returns: "\<exists>r. rating_coercion rating = Inr r"
proof (cases rating)
  case None
  then show ?thesis by (simp add: rating_coercion_def)
next
  case (Some s)
  show ?thesis
  proof (cases "py_int s")
    case (Inl e)
    then have "e = ValueError" by (rule py_int_raises_ValueError)
    with Inl Some show ?thesis by (simp add: rating_coercion_def)
  next
    case (Inr n)
    with Some show ?thesis by (simp add: rating_coercion_def)
  qed
qed

lemma feedback_post:
  assumes "status d = Up" and "rating_coercion (form ''rating'') = Inr r_val"
  shows "feedback d u now POST form =
           Inr (Redirect ''/feedback'',
                d\<lparr>habits_feedback :=
                     habits_feedback d
                     @ [\<lparr>f_feedback_id = feedback_seq d, f_user_detail_id = u,
                         f_feedback_type = lower (strip (get_or_empty form ''type'')),
                         f_feedback_page = lower (strip (get_or_empty form ''page'')),
                         f_feedback_message = strip (get_or_empty form ''message''),
                         f_feedback_rating = r_val,
                         f_contact_email =
                           (if strip (get_or_empty form ''email'') \<noteq> []
                            then Some (strip (get_or_empty form ''email'')) else None),
                         f_created_at = now\<rparr>],
                   feedback_seq := feedback_seq d + 1\<rparr>)"
  using assms
  by (simp add: feedback_def get_db_connection_def cur_execute_def Let_def)

text \<open>No rating rejects a submission: with the storage up, every POST is stored.\<close>

lemma feedback_post_returns:
  assumes "status d = Up"
  shows "\<exists>d'. feedback d u now POST form = Inr (Redirect ''/feedback'', d')"
proof -
  obtain r_val where "rating_coercion (form ''rating'') = Inr r_val"
    using rating_coercion_returns by blast
  with feedback_post[where d = d and form = form and u = u and now = now and r_val = r_val]
    assms
  show ?thesis by simp
qed

text \<open>
  C6. With the storage up, a feedback submission whose rating field is absent, empty or not
  the text of an integer from 1 to 5 is answered with the redirect to \<^verbatim>\<open>/feedback\<close>, and
  exactly one row is appended to the feedback table: the submitting user's, with the
  stripped message and with the rating NULL.
\<close>

theorem feedback_invalid_rating_stored_absent:
  assumes "status d = Up"
    and "\<forall>s n. form ''rating'' = Some s \<and> py_int s = Inr n \<longrightarrow> n < 1 \<or> 5 < n"
  shows "\<exists>row. feedback d u now POST form =
             Inr (Redirect ''/feedback'',
                  d\<lparr>habits_feedback := habits_feedback d @ [row],
                    feedback_seq := feedback_seq d + 1\<rparr>)
           \<and> f_feedback_rating row = None
           \<and> f_user_detail_id row = u
           \<and> f_feedback_message row = strip (get_or_empty form ''message'')"
proof -
  define row where "row =
    \<lparr>f_feedback_id = feedback_seq d, f_user_detail_id = u,
     f_feedback_type = lower (strip (get_or_empty form ''type'')),
     f_feedback_page = lower (strip (get_or_empty form ''page'')),
     f_feedback_message = strip (get_or_empty form ''message''),
     f_feedback_rating = None,
     f_contact_email =
       (if strip (get_or_empty form ''email'') \<noteq> []
        then Some (strip (get_or_empty form ''email'')) else None),
     f_created_at = now\<rparr>"
  have "feedback d u now POST form =
      Inr (Redirect ''/feedback'',
           d\<lparr>habits_feedback := habits_feedback d @ [row],
             feedback_seq := feedback_seq d + 1\<rparr>)"
    using feedback_post[where d = d and form = form and u = u and now = now and r_val = None]
      assms(1) rating_coercion_absent[OF assms(2)]
    by (simp add: row_def)
  moreover have "f_feedback_rating row = None" "f_user_detail_id row = u"
    "f_feedback_message row = strip (get_or_empty form ''message'')"
    by (simp_all add: row_def)
  ultimately show ?thesis by blast
qed

lemma py_int_6: "py_int ''6'' = Inr 6"
  by code_simp

lemma py_int_abc: "py_int ''abc'' = Inl ValueError"
  by code_simp

theorem feedback_invalid_rating_stored_absent_witness:
  "(\<exists>row. feedback
       \<lparr>status = Up, habits_user_detail = [], user_detail_seq = 1, habits_goals = [],
        habits_feedback = [], feedback_seq = 1, habit_tables = (\<lambda>n. None)\<rparr>
       7 100 POST [''type'' \<mapsto> ''Bug'', ''message'' \<mapsto> ''hi'', ''rating'' \<mapsto> ''6'']
     = Inr (Redirect ''/feedback'',
            \<lparr>status = Up, habits_user_detail = [], user_detail_seq = 1, habits_goals = [],
             habits_feedback = [row], feedback_seq = 2, habit_tables = (\<lambda>n. None)\<rparr>)
     \<and> f_feedback_rating row = None)
   \<and> (\<exists>row. feedback
       \<lparr>status = Up, habits_user_detail = [], user_detail_seq = 1, habits_goals = [],
        habits_feedback = [], feedback_seq = 1, habit_tables = (\<lambda>n. None)\<rparr>
       7 100 POST [''type'' \<mapsto> ''Bug'', ''message'' \<mapsto> ''hi'', ''rating'' \<mapsto> ''abc'']
     = Inr (Redirect ''/feedback'',
            \<lparr>status = Up, habits_user_detail = [], user_detail_seq = 1, habits_goals = [],
             habits_feedback = [row], feedback_seq = 2, habit_tables = (\<lambda>n. None)\<rparr>)
     \<and> f_feedback_rating row = None)"
proof -
  let ?d = "\<lparr>status = Up, habits_user_detail = [], user_detail_seq = 1, habits_goals = [],
        habits_feedback = [], feedback_seq = 1, habit_tables = (\<lambda>n. None)\<rparr>"
  let ?six = "[''type'' \<mapsto> ''Bug'', ''message'' \<mapsto> ''hi'', ''rating'' \<mapsto> ''6'']"
  let ?abc = "[''type'' \<mapsto> ''Bug'', ''message'' \<mapsto> ''hi'', ''rating'' \<mapsto> ''abc'']"
  have up: "status ?d = Up"
    by simp
  have six: "\<forall>s n. ?six ''rating'' = Some s \<and> py_int s = Inr n \<longrightarrow> n < 1 \<or> 5 < n"
    using py_int_6 by auto
  have abc: "\<forall>s n. ?abc ''rating'' = Some s \<and> py_int s = Inr n \<longrightarrow> n < 1 \<or> 5 < n"
    using py_int_abc by auto
  have upd: "?d\<lparr>habits_feedback := habits_feedback ?d @ [row],
        feedback_seq := feedback_seq ?d + 1\<rparr>
      = \<lparr>status = Up, habits_user_detail = [], user_detail_seq = 1, habits_goals = [],
         habits_feedback = [row], feedback_seq = 2, habit_tables = (\<lambda>n. None)\<rparr>" for row
    by simp
  have "\<exists>row. feedback ?d 7 100 POST ?six
      = Inr (Redirect ''/feedback'',
             ?d\<lparr>habits_feedback := habits_feedback ?d @ [row],
               feedback_seq := feedback_seq ?d + 1\<rparr>)
      \<and> f_feedback_rating row = None"
    using feedback_invalid_rating_stored_absent[where d = ?d and form = ?six and u = 7
        and now = 100] up six
    by blast
  moreover have "\<exists>row. feedback ?d 7 100 POST ?abc
      = Inr (Redirect ''/feedback'',
             ?d\<lparr>habits_feedback := habits_feedback ?d @ [row],
               feedback_seq := feedback_seq ?d + 1\<rparr>)
      \<and> f_feedback_rating row = None"
    using feedback_invalid_rating_stored_absent[where d = ?d and form = ?abc and u = 7
        and now = 100] up abc
    by blast
  ultimately show ?thesis
    unfolding upd by blast
qed

subsection \<open>\<^verbatim>\<open>_get_feedback_for_user\<close>\<close>

lemma select_list_rating: "f_feedback_rating (feedback_select_list r) \<noteq> None"
  by (simp add: feedback_select_list_def coalesce_def split: option.splits)

lemma select_list_absent:
  "f_feedback_rating r = None \<Longrightarrow> f_feedback_rating (feedback_select_list r) = Some 0"
  by (simp add: feedback_select_list_def coalesce_def)

lemma select_list_idem: "feedback_select_list (feedback_select_list r) = feedback_select_list r"
  by (simp add: feedback_select_list_def coalesce_def split: option.splits)

lemma select_list_user: "f_user_detail_id (feedback_select_list r) = f_user_detail_id r"
  by (simp add: feedback_select_list_def)

lemma select_list_filter:
  "map feedback_select_list
       (filter (\<lambda>r. f_user_detail_id r = u) (map feedback_select_list rows))
     = map feedback_select_list (filter (\<lambda>r. f_user_detail_id r = u) rows)"
  by (induction rows) (simp_all add: select_list_user select_list_idem)

lemma listing_rows:
  assumes "get_feedback_for_user d u limit = Inr rows" and "v \<in> set rows"
  shows "\<exists>r \<in> set (habits_feedback d). f_user_detail_id r = u \<and> v = feedback_select_list r"
proof -
  from assms(1) have "rows = take (nat limit) (rev (sort_key f_created_at
      (map feedback_select_list (filter (\<lambda>r. f_user_detail_id r = u) (habits_feedback d)))))"
    by (auto simp: get_feedback_for_user_def and_then_eq_Inr split: if_splits)
  with assms(2) have "v \<in> set (map feedback_select_list
      (filter (\<lambda>r. f_user_detail_id r = u) (habits_feedback d)))"
    by (auto dest: in_set_takeD)
  then show ?thesis by auto
qed

text \<open>
  C10. Whatever \<open>_get_feedback_for_user\<close> returns, every listed row has a rating that is not
  NULL: it is the stored row of that user with \<^verbatim>\<open>COALESCE(feedback_rating, 0)\<close> in the
  rating's place, so a stored NULL is listed as 0. Replacing every stored NULL rating by 0
  does not change what the listing returns. With the storage up and a limit that is not
  negative, the listing returns.
\<close>

theorem feedback_listing_rating_never_absent:
  "(\<forall>rows. get_feedback_for_user d u limit = Inr rows \<longrightarrow>
      (\<forall>v \<in> set rows. f_feedback_rating v \<noteq> None
         \<and> (\<exists>r \<in> set (habits_feedback d). f_user_detail_id r = u \<and> v = feedback_select_list r
               \<and> (f_feedback_rating r = None \<longrightarrow> f_feedback_rating v = Some 0))))
   \<and> get_feedback_for_user
        (d\<lparr>habits_feedback := map feedback_select_list (habits_feedback d)\<rparr>) u limit
      = get_feedback_for_user d u limit
   \<and> (status d = Up \<and> 0 \<le> limit \<longrightarrow> (\<exists>rows. get_feedback_for_user d u limit = Inr rows))"
proof (intro conjI allI impI ballI)
  fix rows v
  assume a: "get_feedback_for_user d u limit = Inr rows" "v \<in> set rows"
  from listing_rows[OF a] obtain r where r: "r \<in> set (habits_feedback d)"
    "f_user_detail_id r = u" "v = feedback_select_list r"
    by blast
  show "f_feedback_rating v \<noteq> None"
    using r(3) select_list_rating by simp
  show "\<exists>r \<in> set (habits_feedback d). f_user_detail_id r = u \<and> v = feedback_select_list r
               \<and> (f_feedback_rating r = None \<longrightarrow> f_feedback_rating v = Some 0)"
    using r select_list_absent by blast
next
  show "get_feedback_for_user
        (d\<lparr>habits_feedback := map feedback_select_list (habits_feedback d)\<rparr>) u limit
      = get_feedback_for_user d u limit"
    by (simp add: get_feedback_for_user_def get_db_connection_def cur_execute_def
        select_list_filter)
next
  assume "status d = Up \<and> 0 \<le> limit"
  then show "\<exists>rows. get_feedback_for_user d u limit = Inr rows"
    by (simp add: get_feedback_for_user_def get_db_connection_def cur_execute_def)
qed

theorem feedback_listing_rating_never_absent_witness:
  "get_feedback_for_user
     \<lparr>status = Up, habits_user_detail = [], user_detail_seq = 1, habits_goals = [],
      habits_feedback =
        [\<lparr>f_feedback_id = 1, f_user_detail_id = 7, f_feedback_type = ''bug'',
          f_feedback_page = ''sleep'', f_feedback_message = ''chart is empty'',
          f_feedback_rating = None, f_contact_email = None, f_created_at = 100\<rparr>,
         \<lparr>f_feedback_id = 2, f_user_detail_id = 8, f_feedback_type = ''idea'',
          f_feedback_page = ''diet'', f_feedback_message = ''more charts'',
          f_feedback_rating = None, f_contact_email = None, f_created_at = 150\<rparr>,
         \<lparr>f_feedback_id = 3, f_user_detail_id = 7, f_feedback_type = ''praise'',
          f_feedback_page = ''home'', f_feedback_message = ''nice'',
          f_feedback_rating = Some 4, f_contact_email = Some ''a@b.c'', f_created_at = 200\<rparr>],
      feedback_seq = 4, habit_tables = (\<lambda>n. None)\<rparr> 7 20
   = Inr [\<lparr>f_feedback_id = 3, f_user_detail_id = 7, f_feedback_type = ''praise'',
           f_feedback_page = ''home'', f_feedback_message = ''nice'',
           f_feedback_rating = Some 4, f_contact_email = Some ''a@b.c'', f_created_at = 200\<rparr>,
          \<lparr>f_feedback_id = 1, f_user_detail_id = 7, f_feedback_type = ''bug'',
           f_feedback_page = ''sleep'', f_feedback_message = ''chart is empty'',
           f_feedback_rating = Some 0, f_contact_email = None, f_created_at = 100\<rparr>]
   \<and> f_feedback_rating
        \<lparr>f_feedback_id = 1, f_user_detail_id = 7, f_feedback_type = ''bug'',
         f_feedback_page = ''sleep'', f_feedback_message = ''chart is empty'',
         f_feedback_rating = Some 0, f_contact_email = None, f_created_at = 100\<rparr> \<noteq> None
   \<and> (\<exists>rows. get_feedback_for_user
     \<lparr>status = Up, habits_user_detail = [], user_detail_seq = 1, habits_goals = [],
      habits_feedback =
        [\<lparr>f_feedback_id = 1, f_user_detail_id = 7, f_feedback_type = ''bug'',
          f_feedback_page = ''sleep'', f_feedback_message = ''chart is empty'',
          f_feedback_rating = None, f_contact_email = None, f_created_at = 100\<rparr>,
         \<lparr>f_feedback_id = 2, f_user_detail_id = 8, f_feedback_type = ''idea'',
          f_feedback_page = ''diet'', f_feedback_message = ''more charts'',
          f_feedback_rating = None, f_contact_email = None, f_created_at = 150\<rparr>,
         \<lparr>f_feedback_id = 3, f_user_detail_id = 7, f_feedback_type = ''praise'',
          f_feedback_page = ''home'', f_feedback_message = ''nice'',
          f_feedback_rating = Some 4, f_contact_email = Some ''a@b.c'', f_created_at = 200\<rparr>],
      feedback_seq = 4, habit_tables = (\<lambda>n. None)\<rparr> 7 20 = Inr rows)"
proof -
  let ?r1 = "\<lparr>f_feedback_id = 1, f_user_detail_id = 7, f_feedback_type = ''bug'',
          f_feedback_page = ''sleep'', f_feedback_message = ''chart is empty'',
          f_feedback_rating = None, f_contact_email = None, f_created_at = 100\<rparr>"
  let ?r2 = "\<lparr>f_feedback_id = 2, f_user_detail_id = 8, f_feedback_type = ''idea'',
          f_feedback_page = ''diet'', f_feedback_message = ''more charts'',
          f_feedback_rating = None, f_contact_email = None, f_created_at = 150\<rparr>"
  let ?r3 = "\<lparr>f_feedback_id = 3, f_user_detail_id = 7, f_feedback_type = ''praise'',
          f_feedback_page = ''home'', f_feedback_message = ''nice'',
          f_feedback_rating = Some 4, f_contact_email = Some ''a@b.c'', f_created_at = 200\<rparr>"
  let ?v1 = "\<lparr>f_feedback_id = 1, f_user_detail_id = 7, f_feedback_type = ''bug'',
          f_feedback_page = ''sleep'', f_feedback_message = ''chart is empty'',
          f_feedback_rating = Some 0, f_contact_email = None, f_created_at = 100\<rparr>"
  let ?d = "\<lparr>status = Up, habits_user_detail = [], user_detail_seq = 1, habits_goals = [],
      habits_feedback = [?r1, ?r2, ?r3], feedback_seq = 4, habit_tables = (\<lambda>n. None)\<rparr>"
  have run: "get_feedback_for_user ?d 7 20 = Inr [?r3, ?v1]"
    by (simp add: get_feedback_for_user_def get_db_connection_def cur_execute_def
        feedback_select_list_def coalesce_def)
  have "?v1 \<in> set [?r3, ?v1]"
    by simp
  with run feedback_listing_rating_never_absent[of ?d 7 20]
  have "f_feedback_rating ?v1 \<noteq> None"
    by blast
  moreover have "status ?d = Up \<and> (0::int) \<le> 20"
    by simp
  with feedback_listing_rating_never_absent[of ?d 7 20]
  have "\<exists>rows. get_feedback_for_user ?d 7 20 = Inr rows"
    by blast
  ultimately show ?thesis
    using run by blast
qed

end
